theory Spec2Isabelle
  imports Complex_Main "HOL-Library.Char_ord" "HOL-Library.List_Lexorder"
begin

section \<open>Python values, exceptions and calls\<close>

text \<open>
  The program is Python. An exception is a value of \<open>py_error\<close>, and a function that can
  raise returns \<open>py_error + 'a\<close> with \<open>Inl\<close> for the exception. Dates are the strings
  \<open>YYYY-MM-DD\<close> the program stores; their order is the lexicographic order of strings,
  which on zero-padded ISO dates is the chronological one.
\<close>

datatype py_error =
    TypeError
  | AttributeError
  | ValueError
  | KeyError
  | OverflowError
  | ConnectionError
  | ServiceException

definition bind_err :: "'e + 'a \<Rightarrow> ('a \<Rightarrow> 'e + 'b) \<Rightarrow> 'e + 'b" where
  "bind_err r f = (case r of Inl e \<Rightarrow> Inl e | Inr x \<Rightarrow> f x)"

text \<open>Python truthiness of an optional string argument: \<open>None\<close> and \<open>''\<close> are falsy.\<close>

definition truthy :: "string option \<Rightarrow> bool" where
  "truthy a = (case a of None \<Rightarrow> False | Some s \<Rightarrow> s \<noteq> [])"

section \<open>The daily-bar record\<close>

text \<open>
  One day of one symbol, as the collectors build it and the daily index stores it. Prices,
  volume, amount, change and turnover are integers scaled by 100. The wall-clock stamps
  (\<open>update_time\<close>, \<open>created_at\<close>) and the constant \<open>data_source\<close> tag are left out of the
  record: no operation below reads them.
\<close>

record daily_bar =
  date :: string
  stock_code :: string
  market_type :: string
  open_price :: int
  close_price :: int
  high_price :: int
  low_price :: int
  prev_close_price :: int
  volume :: int
  amount :: int
  change_percent :: int
  change_amount :: int
  turnover_rate :: int

section \<open>Keyword arguments\<close>

text \<open>
  A call \<open>f(k1=v1, k2=v2)\<close> is the list of its keywords with their values. Python binds
  the keywords to the parameters of \<open>f\<close> before the body runs, and a keyword that names
  no parameter raises \<open>TypeError\<close> (unexpected keyword argument).
\<close>

datatype pyval = PyNone | PyStr string | PyInt int | PyBool bool

type_synonym kwargs = "(string \<times> pyval) list"

definition unexpected_keywords :: "string list \<Rightarrow> kwargs \<Rightarrow> string list" where
  "unexpected_keywords params kw = filter (\<lambda>k. \<not> List.member params k) (map fst kw)"

definition check_keywords :: "string list \<Rightarrow> kwargs \<Rightarrow> py_error + unit" where
  "check_keywords params kw =
     (if unexpected_keywords params kw = [] then Inr () else Inl TypeError)"

definition kw_str :: "kwargs \<Rightarrow> string \<Rightarrow> string option" where
  "kw_str kw name = (case map_of kw name of Some (PyStr s) \<Rightarrow> Some s | _ \<Rightarrow> None)"

definition kw_int :: "kwargs \<Rightarrow> string \<Rightarrow> int \<Rightarrow> int" where
  "kw_int kw name dflt = (case map_of kw name of Some (PyInt i) \<Rightarrow> i | _ \<Rightarrow> dflt)"

definition kw_bool :: "kwargs \<Rightarrow> string \<Rightarrow> bool \<Rightarrow> bool" where
  "kw_bool kw name dflt = (case map_of kw name of Some (PyBool b) \<Rightarrow> b | _ \<Rightarrow> dflt)"

text \<open>
  Attribute lookup \<open>obj.name\<close> on an instance whose class and \<open>__init__\<close> define the
  names \<open>attrs\<close>: a missing name raises \<open>AttributeError\<close>.
\<close>

definition getattr :: "string list \<Rightarrow> string \<Rightarrow> py_error + unit" where
  "getattr attrs name = (if List.member attrs name then Inr () else Inl AttributeError)"

text \<open>
  \<open>for i in range(0, len(xs), step): xs[i:i + step]\<close>: the slices a batching loop visits.
  \<open>range\<close> raises \<open>ValueError\<close> for a zero step and is empty for a negative one.
\<close>

function chunks :: "nat \<Rightarrow> 'a list \<Rightarrow> 'a list list" where
  "chunks n xs = (if n = 0 \<or> xs = [] then [] else take n xs # chunks n (drop n xs))"
  by pat_completeness auto
termination
  by (relation "measure (\<lambda>(n, xs). length xs)") auto

declare chunks.simps [simp del]

definition py_batches :: "int \<Rightarrow> 'a list \<Rightarrow> py_error + 'a list list" where
  "py_batches step xs =
     (if step = 0 then Inl ValueError
      else if step < 0 then Inr []
      else Inr (chunks (nat step) xs))"

section \<open>The search engine behind the adapters\<close>

text \<open>
  The Elasticsearch cluster as the adapters see it: whether it answers (a request to an
  unreachable cluster raises \<open>ConnectionError\<close> in the client), the documents of the
  daily index by document id, the symbol codes and market types of the documents of the
  basic index (\<open>None\<close> where a document lacks the field), and the write requests the
  client has sent.
\<close>

datatype condition =
    Term_stock_code string
  | Term_market_type string
  | Range_date "string option" "string option"

datatype query = Match_all | Bool_must "condition list"

datatype es_write = Delete_by_query query | Bulk "string list" | Refresh

record es_engine =
  reachable :: bool
  daily_docs :: "(string \<times> daily_bar) list"
  basic_docs :: "(string option \<times> string option) list"
  writes :: "es_write list"

fun matches :: "condition \<Rightarrow> daily_bar \<Rightarrow> bool" where
  "matches (Term_stock_code c) d = (stock_code d = c)"
| "matches (Term_market_type m) d = (market_type d = m)"
| "matches (Range_date gte lte) d =
     ((case gte of None \<Rightarrow> True | Some g \<Rightarrow> g \<le> date d) \<and>
      (case lte of None \<Rightarrow> True | Some l \<Rightarrow> date d \<le> l))"

fun query_matches :: "query \<Rightarrow> daily_bar \<Rightarrow> bool" where
  "query_matches Match_all d = True"
| "query_matches (Bool_must cs) d = list_all (\<lambda>c. matches c d) cs"

text \<open>
  The sort \<open>[{date: desc}, {stock_code: asc}]\<close>: by code ascending first, then stably by
  date descending (a stable ascending sort of the reversed list, reversed).
\<close>

definition sort_date_desc_code_asc :: "daily_bar list \<Rightarrow> daily_bar list" where
  "sort_date_desc_code_asc ds = rev (sort_key date (rev (sort_key stock_code ds)))"

text \<open>
  \<open>es.search(index, body = {query, size, sort?})\<close>: the matching documents, sorted when
  a sort is given and in index order otherwise, cut to \<open>size\<close>. A negative size is
  rejected by the engine.
\<close>

definition es_search :: "es_engine \<Rightarrow> query \<Rightarrow> int \<Rightarrow> bool \<Rightarrow> py_error + daily_bar list" where
  "es_search es q sz sorted_by_date =
     (if \<not> reachable es then Inl ConnectionError
      else if sz < 0 then Inl ValueError
      else Inr (take (nat sz)
             ((if sorted_by_date then sort_date_desc_code_asc else (\<lambda>ds. ds))
                (filter (query_matches q) (map snd (daily_docs es))))))"

text \<open>
  \<open>es.delete_by_query(index, body = {query})\<close>: removes the matching documents and
  answers with their number.
\<close>

definition es_delete_by_query :: "es_engine \<Rightarrow> query \<Rightarrow> (py_error + nat) \<times> es_engine" where
  "es_delete_by_query es q =
     (if reachable es
      then (Inr (length (filter (\<lambda>kd. query_matches q (snd kd)) (daily_docs es))),
            es\<lparr> daily_docs := filter (\<lambda>kd. \<not> query_matches q (snd kd)) (daily_docs es),
                writes := writes es @ [Delete_by_query q] \<rparr>)
      else (Inl ConnectionError, es\<lparr> writes := writes es @ [Delete_by_query q] \<rparr>))"

fun upsert :: "string \<Rightarrow> daily_bar \<Rightarrow> (string \<times> daily_bar) list \<Rightarrow> (string \<times> daily_bar) list" where
  "upsert k v [] = [(k, v)]"
| "upsert k v ((k', v') # kvs) = (if k = k' then (k, v) # kvs else (k', v') # upsert k v kvs)"

text \<open>
  \<open>helpers.bulk(client, actions)\<close>: indexes every action under its id and answers
  \<open>(number indexed, [])\<close>, or raises.
\<close>

definition es_bulk ::
  "es_engine \<Rightarrow> (string \<times> daily_bar) list \<Rightarrow> (py_error + nat \<times> string list) \<times> es_engine" where
  "es_bulk es actions =
     (if reachable es
      then (Inr (length actions, []),
            es\<lparr> daily_docs := fold (\<lambda>(k, v). upsert k v) actions (daily_docs es),
                writes := writes es @ [Bulk (map fst actions)] \<rparr>)
      else (Inl ConnectionError, es\<lparr> writes := writes es @ [Bulk (map fst actions)] \<rparr>))"

definition es_refresh :: "es_engine \<Rightarrow> (py_error + unit) \<times> es_engine" where
  "es_refresh es =
     (if reachable es then (Inr (), es\<lparr> writes := writes es @ [Refresh] \<rparr>)
      else (Inl ConnectionError, es\<lparr> writes := writes es @ [Refresh] \<rparr>))"

section \<open>Daily-bar storage adapter: \<open>DailyDataStorage\<close>\<close>

text \<open>
  The adapter holds the client, or \<open>None\<close> when the connection failed at construction
  (\<open>__init__\<close> catches every exception and a failed ping alike).
\<close>

record daily_storage =
  es_client :: "es_engine option"

definition new_daily_storage :: "es_engine \<Rightarrow> daily_storage" where
  "new_daily_storage es = \<lparr> es_client = (if reachable es then Some es else None) \<rparr>"

text \<open>The names an instance of \<open>DailyDataStorage\<close> has: its attributes and its methods.\<close>

definition DailyDataStorage_attrs :: "string list" where
  "DailyDataStorage_attrs =
     [''logger'', ''es_client'', ''index_name'', ''alias_name'', ''__init__'',
      ''_ensure_index_exists'', ''save_daily_data'', ''search_daily_data'',
      ''get_daily_data_count'', ''delete_daily_data'', ''get_stock_date_range'', ''close'']"

text \<open>The filter the search, count and delete methods build from the arguments that are set.\<close>

definition term_condition :: "(string \<Rightarrow> condition) \<Rightarrow> string option \<Rightarrow> condition list" where
  "term_condition mk a = (case a of None \<Rightarrow> [] | Some s \<Rightarrow> if s = [] then [] else [mk s])"

definition given :: "string option \<Rightarrow> string option" where
  "given a = (if truthy a then a else None)"

definition range_condition :: "string option \<Rightarrow> string option \<Rightarrow> condition list" where
  "range_condition start_date end_date =
     (if truthy start_date \<or> truthy end_date
      then [Range_date (given start_date) (given end_date)] else [])"

definition build_query :: "condition list \<Rightarrow> query" where
  "build_query query_conditions =
     (if query_conditions = [] then Match_all else Bool_must query_conditions)"

definition doc_id :: "daily_bar \<Rightarrow> string" where
  "doc_id d = stock_code d @ ''_'' @ date d"

text \<open>
  The loop of \<open>save_daily_data\<close> over the sub-batches: \<open>success_count\<close> and \<open>error_count\<close>
  are the counters of the source; a sub-batch whose bulk call raises counts as errors.
\<close>

fun save_batches ::
  "(string \<times> daily_bar) list list \<Rightarrow> nat \<times> nat \<times> es_engine \<Rightarrow> nat \<times> nat \<times> es_engine" where
  "save_batches [] acc = acc"
| "save_batches (batch_actions # rest) (success_count, error_count, es) =
     (case es_bulk es batch_actions of
        (Inr (batch_success, errors), es') \<Rightarrow>
          save_batches rest (success_count + batch_success, error_count + length errors, es')
      | (Inl e, es') \<Rightarrow>
          save_batches rest (success_count, error_count + length batch_actions, es'))"

definition save_daily_data :: "daily_storage \<Rightarrow> daily_bar list \<Rightarrow> int \<Rightarrow> bool \<times> daily_storage" where
  "save_daily_data self data_list batch_size =
     (case es_client self of
        None \<Rightarrow> (False, self)
      | Some es \<Rightarrow>
          if data_list = [] then (True, self)
          else
            (case py_batches batch_size (map (\<lambda>d. (doc_id d, d)) data_list) of
               Inl e \<Rightarrow> (False, self)
             | Inr batches \<Rightarrow>
                 (case save_batches batches (0, 0, es) of
                    (success_count, error_count, es1) \<Rightarrow>
                      (case es_refresh es1 of
                         (Inl e, es2) \<Rightarrow> (False, self\<lparr> es_client := Some es2 \<rparr>)
                       | (Inr u, es2) \<Rightarrow> (error_count = 0, self\<lparr> es_client := Some es2 \<rparr>)))))"

text \<open>
  \<open>search_daily_data(self, stock_code=None, start_date=None, end_date=None,
  market_type=None, size=100, sort_by_date=True)\<close> (the parameters \<open>stock_code\<close>,
  \<open>market_type\<close> and \<open>size\<close> are \<open>code\<close>, \<open>market\<close> and \<open>sz\<close> here, the first two
  being field names of the record). The sort order is fixed: date
  descending, then symbol code ascending. The \<open>_id\<close> the source adds to every hit is left
  out of the result.
\<close>

definition search_daily_data ::
  "daily_storage \<Rightarrow> string option \<Rightarrow> string option \<Rightarrow> string option \<Rightarrow> string option \<Rightarrow>
     int \<Rightarrow> bool \<Rightarrow> daily_bar list" where
  "search_daily_data self code start_date end_date market sz sort_by_date =
     (case es_client self of
        None \<Rightarrow> []
      | Some es \<Rightarrow>
          (case es_search es
                  (build_query (term_condition Term_stock_code code
                                @ term_condition Term_market_type market
                                @ range_condition start_date end_date))
                  sz sort_by_date of
             Inl e \<Rightarrow> []
           | Inr results \<Rightarrow> results))"

definition search_daily_data_params :: "string list" where
  "search_daily_data_params =
     [''stock_code'', ''start_date'', ''end_date'', ''market_type'', ''size'', ''sort_by_date'']"

text \<open>A call of \<open>search_daily_data\<close> with keyword arguments.\<close>

definition call_search_daily_data :: "daily_storage \<Rightarrow> kwargs \<Rightarrow> py_error + daily_bar list" where
  "call_search_daily_data self kw =
     bind_err (check_keywords search_daily_data_params kw) (\<lambda>u.
       Inr (search_daily_data self (kw_str kw ''stock_code'') (kw_str kw ''start_date'')
              (kw_str kw ''end_date'') (kw_str kw ''market_type'') (kw_int kw ''size'' 100)
              (kw_bool kw ''sort_by_date'' True)))"

text \<open>\<open>delete_daily_data(self, stock_code=None, start_date=None, end_date=None)\<close>\<close>

definition delete_daily_data ::
  "daily_storage \<Rightarrow> string option \<Rightarrow> string option \<Rightarrow> string option \<Rightarrow> bool \<times> daily_storage" where
  "delete_daily_data self code start_date end_date =
     (case es_client self of
        None \<Rightarrow> (False, self)
      | Some es \<Rightarrow>
          (let query_conditions =
                 term_condition Term_stock_code code @ range_condition start_date end_date
           in if query_conditions = [] then (False, self)
              else
                (case es_delete_by_query es (Bool_must query_conditions) of
                   (Inl e, es') \<Rightarrow> (False, self\<lparr> es_client := Some es' \<rparr>)
                 | (Inr deleted_count, es') \<Rightarrow> (True, self\<lparr> es_client := Some es' \<rparr>))))"

section \<open>Dates: \<open>datetime.strptime(s, '%Y-%m-%d')\<close>\<close>

text \<open>
  The parser of the Python runtime, for the one format the program uses. The format
  compiles to the regular expression
  \<open>(\d\d\d\d)-(1[0-2]|0[1-9]|[1-9])-(3[01]|[12]\d|0[1-9]|[1-9]| [1-9])\<close>, matched at the
  start of the string; text left over after the match, a year 0 and a day the month does
  not have raise \<open>ValueError\<close>. A date is the triple of year, month and day.
\<close>

type_synonym ymd = "nat \<times> nat \<times> nat"

definition is_digit :: "char \<Rightarrow> bool" where
  "is_digit c = List.member ''0123456789'' c"

definition digit_val :: "char \<Rightarrow> nat" where
  "digit_val c = of_char c - 48"

definition is_leap :: "nat \<Rightarrow> bool" where
  "is_leap y = (y mod 4 = 0 \<and> (y mod 400 = 0 \<or> y mod 100 \<noteq> 0))"

definition days_in_month :: "nat \<Rightarrow> nat \<Rightarrow> nat" where
  "days_in_month y m =
     (if m = 2 then (if is_leap y then 29 else 28)
      else if List.member [4, 6, 9, 11] m then 30 else 31)"

text \<open>The month and the day alternatives, tried in the order of the expression.\<close>

fun parse_month :: "string \<Rightarrow> (nat \<times> string) option" where
  "parse_month (a # b # r) =
     (if a = CHR ''1'' \<and> List.member ''012'' b then Some (10 + digit_val b, r)
      else if a = CHR ''0'' \<and> List.member ''123456789'' b then Some (digit_val b, r)
      else if List.member ''123456789'' a then Some (digit_val a, b # r)
      else None)"
| "parse_month [a] = (if List.member ''123456789'' a then Some (digit_val a, []) else None)"
| "parse_month [] = None"

fun parse_day :: "string \<Rightarrow> (nat \<times> string) option" where
  "parse_day (a # b # r) =
     (if a = CHR ''3'' \<and> List.member ''01'' b then Some (30 + digit_val b, r)
      else if List.member ''12'' a \<and> is_digit b then Some (10 * digit_val a + digit_val b, r)
      else if a = CHR ''0'' \<and> List.member ''123456789'' b then Some (digit_val b, r)
      else if List.member ''123456789'' a then Some (digit_val a, b # r)
      else if a = CHR '' '' \<and> List.member ''123456789'' b then Some (digit_val b, r)
      else None)"
| "parse_day [a] = (if List.member ''123456789'' a then Some (digit_val a, []) else None)"
| "parse_day [] = None"

definition make_date :: "nat \<Rightarrow> nat \<Rightarrow> nat \<Rightarrow> py_error + ymd" where
  "make_date y m d =
     (if 1 \<le> y \<and> 1 \<le> m \<and> m \<le> 12 \<and> 1 \<le> d \<and> d \<le> days_in_month y m
      then Inr (y, m, d) else Inl ValueError)"

definition strptime_ymd :: "string \<Rightarrow> py_error + ymd" where
  "strptime_ymd s =
     (if length (take 4 s) = 4 \<and> list_all is_digit (take 4 s) \<and> take 1 (drop 4 s) = ''-''
      then
        (case parse_month (drop 5 s) of
           None \<Rightarrow> Inl ValueError
         | Some (m, r) \<Rightarrow>
             if take 1 r = ''-''
             then
               (case parse_day (drop 1 r) of
                  None \<Rightarrow> Inl ValueError
                | Some (d, r') \<Rightarrow>
                    if r' = []
                    then make_date (foldl (\<lambda>n c. 10 * n + digit_val c) 0 (take 4 s)) m d
                    else Inl ValueError)
             else Inl ValueError)
      else Inl ValueError)"

text \<open>\<open>start > end\<close> on two dates.\<close>

fun date_gt :: "ymd \<Rightarrow> ymd \<Rightarrow> bool" where
  "date_gt (y, m, d) (y', m', d') =
     (y' < y \<or> (y = y' \<and> (m' < m \<or> (m = m' \<and> d' < d))))"

text \<open>\<open>dt - timedelta(days=1)\<close>: there is no day before 0001-01-01.\<close>

fun day_before :: "ymd \<Rightarrow> py_error + ymd" where
  "day_before (y, m, d) =
     (if 1 < d then Inr (y, m, d - 1)
      else if 1 < m then Inr (y, m - 1, days_in_month y (m - 1))
      else if 1 < y then Inr (y - 1, 12, 31)
      else Inl OverflowError)"

text \<open>\<open>strftime('%Y-%m-%d')\<close>, the year on four digits.\<close>

fun fixed_digits :: "nat \<Rightarrow> nat \<Rightarrow> string" where
  "fixed_digits 0 n = []"
| "fixed_digits (Suc k) n = fixed_digits k (n div 10) @ [char_of (48 + n mod 10)]"

fun strftime_ymd :: "ymd \<Rightarrow> string" where
  "strftime_ymd (y, m, d) = fixed_digits 4 y @ ''-'' @ fixed_digits 2 m @ ''-'' @ fixed_digits 2 d"

section \<open>Request model: \<open>HistoryCollectRequest\<close>\<close>

text \<open>
  The fields \<open>start_date\<close>, \<open>end_date\<close>, \<open>stock_codes\<close> and \<open>adjust_flag\<close> of the data
  class, prefixed with \<open>rq_\<close>. Every rule \<open>validate\<close> checks raises \<open>ValueError\<close> with a
  message of its own; \<open>request_error\<close> names the messages.
\<close>

record history_collect_request =
  rq_start_date :: string
  rq_end_date :: string
  rq_stock_codes :: "string list option"
  rq_adjust_flag :: string

datatype request_error =
    Start_date_format
  | End_date_format
  | Start_after_end
  | Adjust_flag_invalid
  | Stock_code_format string

text \<open>\<open>_is_valid_date\<close>: \<open>strptime\<close> does not raise \<open>ValueError\<close>.\<close>

definition is_valid_date :: "string \<Rightarrow> bool" where
  "is_valid_date date_str = (\<not> isl (strptime_ymd date_str))"

text \<open>
  \<open>_is_valid_stock_code\<close>: \<open>bool(re.match(r'^\d{6}$', code))\<close>. In a Python regular
  expression \<open>$\<close> matches at the end of the string and also just before a newline that
  ends the string.
\<close>

definition is_valid_stock_code :: "string \<Rightarrow> bool" where
  "is_valid_stock_code code =
     (length (take 6 code) = 6 \<and> list_all is_digit (take 6 code)
      \<and> (drop 6 code = [] \<or> drop 6 code = [CHR 0x0A]))"

definition validate :: "history_collect_request \<Rightarrow> request_error + unit" where
  "validate self =
     (if \<not> is_valid_date (rq_start_date self) then Inl Start_date_format
      else if \<not> is_valid_date (rq_end_date self) then Inl End_date_format
      else
        (case (strptime_ymd (rq_start_date self), strptime_ymd (rq_end_date self)) of
           (Inr start, Inr end) \<Rightarrow>
             if date_gt start end then Inl Start_after_end
             else if \<not> List.member [''qfq'', ''hfq'', ''none''] (rq_adjust_flag self)
             then Inl Adjust_flag_invalid
             else
               (case rq_stock_codes self of
                  None \<Rightarrow> Inr ()
                | Some codes \<Rightarrow>
                    (case find (\<lambda>code. \<not> is_valid_stock_code code) codes of
                       None \<Rightarrow> Inr ()
                     | Some code \<Rightarrow> Inl (Stock_code_format code)))
         | _ \<Rightarrow> Inl Start_date_format))"

text \<open>Construction: \<open>__post_init__\<close> runs \<open>validate\<close>, and the object is the fields as given.\<close>

definition HistoryCollectRequest ::
  "string \<Rightarrow> string \<Rightarrow> string list option \<Rightarrow> string \<Rightarrow> request_error + history_collect_request" where
  "HistoryCollectRequest start_date end_date codes flag =
     (case validate \<lparr> rq_start_date = start_date, rq_end_date = end_date,
                      rq_stock_codes = codes, rq_adjust_flag = flag \<rparr> of
        Inl e \<Rightarrow> Inl e
      | Inr u \<Rightarrow> Inr \<lparr> rq_start_date = start_date, rq_end_date = end_date,
                       rq_stock_codes = codes, rq_adjust_flag = flag \<rparr>)"

section \<open>Basic storage adapter: \<open>ElasticsearchStorage\<close>\<close>

text \<open>
  The adapter of the basic index. Its field \<open>es_client\<close> is \<open>basic_client\<close> here, to
  tell it from the field of \<open>DailyDataStorage\<close>. \<open>_connect\<close> keeps the client when the
  ping fails and drops it only when building it raises.
\<close>

record basic_storage =
  basic_client :: "es_engine option"

text \<open>The names an instance of \<open>ElasticsearchStorage\<close> has: its attributes and its methods.\<close>

definition ElasticsearchStorage_attrs :: "string list" where
  "ElasticsearchStorage_attrs =
     [''es_client'', ''batch_size'', ''__init__'', ''_connect'', ''_ensure_index_exists'',
      ''_prepare_bulk_data'', ''clear_index'', ''save_stock_data'', ''get_stock_count'',
      ''search_stock'', ''get_all_stock_codes'', ''close'']"

text \<open>
  \<open>get_all_stock_codes(self, market_type=None)\<close>. The scroll loop reads page after page
  until an empty one, which together are the matching documents; the codes of those that
  have one are returned without duplicates (\<open>list(set(...))\<close>, in no particular order:
  \<open>remdups\<close> fixes one).
\<close>

definition get_all_stock_codes :: "basic_storage \<Rightarrow> string option \<Rightarrow> string list" where
  "get_all_stock_codes self market =
     (case basic_client self of
        None \<Rightarrow> []
      | Some es \<Rightarrow>
          if reachable es
          then remdups (List.map_filter fst
                 (filter (\<lambda>doc. case given market of None \<Rightarrow> True | Some m \<Rightarrow> snd doc = Some m)
                    (basic_docs es)))
          else [])"

definition get_all_stock_codes_params :: "string list" where
  "get_all_stock_codes_params = [''market_type'']"

definition call_get_all_stock_codes :: "basic_storage \<Rightarrow> kwargs \<Rightarrow> py_error + string list" where
  "call_get_all_stock_codes self kw =
     bind_err (check_keywords get_all_stock_codes_params kw) (\<lambda>u.
       Inr (get_all_stock_codes self (kw_str kw ''market_type'')))"

text \<open>
  Modelled from the spec: \<open>ElasticsearchStorage\<close> defines no \<open>check_connection\<close>; the spec
  calls it the storage adapter's connection ping.
\<close>

definition check_connection :: "basic_storage \<Rightarrow> bool" where
  "check_connection self = (case basic_client self of None \<Rightarrow> False | Some es \<Rightarrow> reachable es)"

section \<open>Application service: \<open>StockService\<close>\<close>

text \<open>
  What the service finds when it builds its parts: the cluster, whether building the
  search client raises, and whether building the scheduler raises.
\<close>

record service_env =
  engine :: es_engine
  client_raises :: bool
  scheduler_raises :: bool

text \<open>The service owns a scheduler and a storage adapter, both built on first use.\<close>

record stock_service =
  scheduler :: bool
  es_storage :: "basic_storage option"

definition new_basic_storage :: "service_env \<Rightarrow> basic_storage" where
  "new_basic_storage env =
     \<lparr> basic_client = (if client_raises env then None else Some (engine env)) \<rparr>"

definition get_scheduler :: "service_env \<Rightarrow> stock_service \<Rightarrow> (py_error + unit) \<times> stock_service" where
  "get_scheduler env self =
     (if scheduler self then (Inr (), self)
      else if scheduler_raises env then (Inl ConnectionError, self)
      else (Inr (), self\<lparr> scheduler := True \<rparr>))"

definition get_es_storage :: "service_env \<Rightarrow> stock_service \<Rightarrow> basic_storage \<times> stock_service" where
  "get_es_storage env self =
     (case es_storage self of
        None \<Rightarrow> (new_basic_storage env, self\<lparr> es_storage := Some (new_basic_storage env) \<rparr>)
      | Some storage \<Rightarrow> (storage, self))"

text \<open>
  \<open>get_stock_codes(self, request)\<close>: the request carries \<open>limit\<close>. Every exception of the
  body is caught and raised again as the service's own \<open>Exception\<close>.
\<close>

definition get_stock_codes ::
  "service_env \<Rightarrow> stock_service \<Rightarrow> int \<Rightarrow> (py_error + string list) \<times> stock_service" where
  "get_stock_codes env self limit =
     (case get_es_storage env self of
        (storage, self') \<Rightarrow>
          (case call_get_all_stock_codes storage [(''limit'', PyInt limit)] of
             Inl e \<Rightarrow> (Inl ServiceException, self')
           | Inr codes \<Rightarrow> (Inr codes, self')))"

text \<open>
  The answer of \<open>health_check\<close>: the overall status with the status of the two
  components, or, from the outer handler, the status with the error.
\<close>

datatype health_report =
    Components string string string
  | Health_error string py_error

definition health_label :: "bool \<Rightarrow> string" where
  "health_label ok = (if ok then ''healthy'' else ''unhealthy'')"

definition health_check :: "service_env \<Rightarrow> stock_service \<Rightarrow> health_report \<times> stock_service" where
  "health_check env self =
     (case get_es_storage env self of
        (storage, self') \<Rightarrow>
          (case getattr ElasticsearchStorage_attrs ''check_connection'' of
             Inl e \<Rightarrow> (Health_error ''unhealthy'' e, self')
           | Inr u \<Rightarrow>
               (case get_scheduler env self' of
                  (probe, self'') \<Rightarrow>
                    (Components
                       (health_label (check_connection storage \<and> \<not> isl probe))
                       (health_label (check_connection storage))
                       (health_label (\<not> isl probe)),
                     self''))))"

section \<open>Streaming strategy job: \<open>StockDataProcessor\<close>\<close>

text \<open>
  A quote message is a JSON object; a field is \<open>None\<close> when the key is absent. The signal
  is the dictionary \<open>strategy_data\<close> without its time stamp. \<open>price_diff_percent\<close> is the
  floating-point expression \<open>round((a - b) / b * 10000, 2)\<close> of the Python runtime, the
  parameter \<open>pct\<close> of the model.
\<close>

record quote_msg =
  m_stock_code :: "string option"
  m_date :: "string option"
  m_close_price :: "int option"
  m_market_type :: "string option"

record 'p strategy_data =
  sd_date :: string
  sd_stock_code :: string
  sd_market_type :: "string option"
  current_price :: int
  compare_price :: int
  price_diff :: int
  price_diff_percent :: 'p

record 'p stock_data_processor =
  sp_daily_storage :: daily_storage
  sp_strategy_storage :: "'p strategy_data list option"

text \<open>
  Modelled from the spec: the module \<open>core.data_storage.strategy_storage\<close> with
  \<open>StrategyStorage.save_strategy_data\<close> is not among the sources; the spec has the
  triggering record persisted by the strategy-storage adapter's single-save operation.
\<close>

definition save_strategy_data :: "'p strategy_data list \<Rightarrow> 'p strategy_data \<Rightarrow> 'p strategy_data list" where
  "save_strategy_data saved sd = saved @ [sd]"

definition save_strategy_result ::
  "'p stock_data_processor \<Rightarrow> 'p strategy_data \<Rightarrow> 'p stock_data_processor" where
  "save_strategy_result self sd =
     (case sp_strategy_storage self of
        None \<Rightarrow> self
      | Some saved \<Rightarrow> self\<lparr> sp_strategy_storage := Some (save_strategy_data saved sd) \<rparr>)"

text \<open>
  \<open>_get_historical_data(self, stock_code, current_date, days)\<close>: every exception of the
  body gives the empty list.
\<close>

definition get_historical_data :: "daily_storage \<Rightarrow> string \<Rightarrow> string \<Rightarrow> int \<Rightarrow> daily_bar list" where
  "get_historical_data storage code current_date days =
     (case strptime_ymd current_date of
        Inl e \<Rightarrow> []
      | Inr current_dt \<Rightarrow>
          (case day_before current_dt of
             Inl e \<Rightarrow> []
           | Inr end_dt \<Rightarrow>
               (case call_search_daily_data storage
                       [(''stock_code'', PyStr code), (''size'', PyInt days),
                        (''sort_by_date'', PyBool True), (''ascending'', PyBool True),
                        (''end_date'', PyStr (strftime_ymd end_dt))] of
                  Inl e \<Rightarrow> []
                | Inr historical_data \<Rightarrow> historical_data)))"

text \<open>
  \<open>_execute_nine_turn_strategy(self, current_data)\<close>. The guard
  \<open>not stock_code or not current_date or current_price <= 0\<close> is the first two cases.
\<close>

definition execute_nine_turn_strategy ::
  "(int \<Rightarrow> int \<Rightarrow> 'p) \<Rightarrow> 'p stock_data_processor \<Rightarrow> quote_msg \<Rightarrow>
     'p strategy_data option \<times> 'p stock_data_processor" where
  "execute_nine_turn_strategy pct self current_data =
     (case (given (m_stock_code current_data), given (m_date current_data)) of
        (Some code, Some current_date) \<Rightarrow>
          (let price = (case m_close_price current_data of None \<Rightarrow> 0 | Some p \<Rightarrow> p)
           in if price \<le> 0 then (None, self)
              else
                (case get_historical_data (sp_daily_storage self) code current_date 4 of
                   [] \<Rightarrow> (None, self)
                 | first # rest \<Rightarrow>
                     if close_price first \<le> 0 then (None, self)
                     else if close_price first < price
                     then
                       (let sd = \<lparr> sd_date = current_date, sd_stock_code = code,
                                   sd_market_type = m_market_type current_data,
                                   current_price = price, compare_price = close_price first,
                                   price_diff = price - close_price first,
                                   price_diff_percent = pct price (close_price first) \<rparr>
                        in (Some sd, save_strategy_result self sd))
                     else (None, self)))
      | _ \<Rightarrow> (None, self))"

text \<open>
  \<open>process_element(self, value, ctx, out)\<close>: \<open>value\<close> is the parsed message, or \<open>None\<close>
  when \<open>json.loads\<close> raises; the first component is what is collected into \<open>out\<close>.
\<close>

definition process_element ::
  "(int \<Rightarrow> int \<Rightarrow> 'p) \<Rightarrow> 'p stock_data_processor \<Rightarrow> quote_msg option \<Rightarrow>
     'p strategy_data list \<times> 'p stock_data_processor" where
  "process_element pct self v =
     (case v of
        None \<Rightarrow> ([], self)
      | Some stock_data \<Rightarrow>
          (case execute_nine_turn_strategy pct self stock_data of
             (None, self') \<Rightarrow> ([], self')
           | (Some strategy_result, self') \<Rightarrow> ([strategy_result], self')))"

section \<open>History collector: \<open>process_history_data\<close>\<close>

text \<open>
  A cell of the upstream data frame is either missing (\<open>pd.notna\<close> is false) or holds a
  value. The conversion \<open>int(float(v) * 100)\<close> is floating-point arithmetic of the Python
  runtime and can raise (an unparsable string, an infinity); it is the parameter \<open>scale\<close>
  of the model, so every result below holds for whatever that conversion computes.
\<close>

datatype 'v cell = NA | Val 'v

record 'v hist_row =
  r_date :: string
  r_open :: "'v cell"
  r_close :: "'v cell"
  r_high :: "'v cell"
  r_low :: "'v cell"
  r_volume :: "'v cell"
  r_amount :: "'v cell"
  r_change_percent :: "'v cell"
  r_change_amount :: "'v cell"
  r_turnover :: "'v cell"

text \<open>\<open>int(float(row[c]) * 100) if pd.notna(row[c]) else 0\<close>\<close>

definition scaled_or_zero :: "('v \<Rightarrow> py_error + int) \<Rightarrow> 'v cell \<Rightarrow> py_error + int" where
  "scaled_or_zero scale c = (case c of NA \<Rightarrow> Inr 0 | Val v \<Rightarrow> scale v)"

text \<open>
  The dictionary literal of the loop body: the fields are evaluated in the order they are
  written, and the first conversion that raises aborts the row.
\<close>

definition history_item ::
  "('v \<Rightarrow> py_error + int) \<Rightarrow> string \<Rightarrow> string \<Rightarrow> int \<Rightarrow> 'v hist_row \<Rightarrow> py_error + daily_bar" where
  "history_item scale code market prev_close row =
     bind_err (scaled_or_zero scale (r_open row)) (\<lambda>op.
     bind_err (scaled_or_zero scale (r_close row)) (\<lambda>cl.
     bind_err (scaled_or_zero scale (r_high row)) (\<lambda>hi.
     bind_err (scaled_or_zero scale (r_low row)) (\<lambda>lo.
     bind_err (scaled_or_zero scale (r_volume row)) (\<lambda>vol.
     bind_err (scaled_or_zero scale (r_amount row)) (\<lambda>amt.
     bind_err (scaled_or_zero scale (r_change_percent row)) (\<lambda>cp.
     bind_err (scaled_or_zero scale (r_change_amount row)) (\<lambda>ca.
     bind_err (scaled_or_zero scale (r_turnover row)) (\<lambda>tr.
       Inr \<lparr> date = r_date row, stock_code = code, market_type = market,
             open_price = op, close_price = cl, high_price = hi, low_price = lo,
             prev_close_price = prev_close, volume = vol, amount = amt,
             change_percent = cp, change_amount = ca, turnover_rate = tr \<rparr>)))))))))"

text \<open>
  The loop over the sorted rows. \<open>prev_close\<close> is the loop variable of the source: it is
  updated only after a row has been appended, and a row whose conversion raises is logged
  and skipped (\<open>continue\<close>).
\<close>

fun process_rows ::
  "('v \<Rightarrow> py_error + int) \<Rightarrow> string \<Rightarrow> string \<Rightarrow> int \<Rightarrow> 'v hist_row list \<Rightarrow> daily_bar list" where
  "process_rows scale code market prev_close [] = []"
| "process_rows scale code market prev_close (row # rows) =
     (case history_item scale code market prev_close row of
        Inl e \<Rightarrow> process_rows scale code market prev_close rows
      | Inr data_item \<Rightarrow>
          data_item # process_rows scale code market (close_price data_item) rows)"

text \<open>
  \<open>df\<close> is \<open>None\<close> or a frame; an empty frame is the empty list of rows.
  \<open>df.sort_values\<close> on the date column is \<open>sort_key r_date\<close>: ascending by date. (The library sorts
  with an unstable algorithm by default; rows of one symbol have distinct dates, where
  every ascending sort gives the same list.)
\<close>

definition process_history_data ::
  "('v \<Rightarrow> py_error + int) \<Rightarrow> 'v hist_row list option \<Rightarrow> string \<Rightarrow> string \<Rightarrow> daily_bar list" where
  "process_history_data scale df code market =
     (case df of
        None \<Rightarrow> []
      | Some rows \<Rightarrow>
          if rows = [] then []
          else process_rows scale code market 0 (sort_key r_date rows))"

text \<open>A row converts when none of its nine conversions raises.\<close>

definition row_converts :: "('v \<Rightarrow> py_error + int) \<Rightarrow> 'v hist_row \<Rightarrow> bool" where
  "row_converts scale row = (\<not> isl (history_item scale [] [] 0 row))"

text \<open>The scaled close of a row that converts.\<close>

definition scaled_close :: "('v \<Rightarrow> py_error + int) \<Rightarrow> 'v hist_row \<Rightarrow> int" where
  "scaled_close scale row =
     (case scaled_or_zero scale (r_close row) of Inl e \<Rightarrow> 0 | Inr n \<Rightarrow> n)"

text \<open>
  The exact-arithmetic reading of \<open>int(float(v) * 100)\<close> on rational inputs (truncation
  toward zero), used for the worked examples only.
\<close>

definition exact_scale :: "rat \<Rightarrow> py_error + int" where
  "exact_scale q = Inr (if 0 \<le> q then \<lfloor>q * 100\<rfloor> else \<lceil>q * 100\<rceil>)"

definition example_row :: "string \<Rightarrow> rat \<Rightarrow> rat hist_row" where
  "example_row d c =
     \<lparr> r_date = d, r_open = Val c, r_close = Val c, r_high = Val c, r_low = Val c,
       r_volume = NA, r_amount = NA, r_change_percent = NA, r_change_amount = NA,
       r_turnover = NA \<rparr>"

section \<open>Message-bus producer: \<open>KafkaProducer\<close>\<close>

text \<open>
  The producer handle, whether the broker acknowledges a send, and the records sent.
  \<open>send_stock_data\<close> catches every exception and answers whether the send succeeded.
\<close>

record kafka_producer =
  producer :: bool
  broker_up :: bool
  sent :: "daily_bar list"

definition send_stock_data :: "kafka_producer \<Rightarrow> daily_bar \<Rightarrow> bool \<times> kafka_producer" where
  "send_stock_data self stock_data =
     (if \<not> producer self then (False, self)
      else if broker_up self then (True, self\<lparr> sent := sent self @ [stock_data] \<rparr>)
      else (False, self))"

section \<open>Realtime collector: \<open>RealtimeDataCollector\<close>\<close>

text \<open>
  A row of the upstream spot frame. Here the conversion \<open>int(float(row[c]) * 100)\<close> has
  no \<open>pd.notna\<close> guard: a missing cell raises.
\<close>

record 'v spot_row =
  s_code :: string
  s_open :: "'v cell"
  s_latest :: "'v cell"
  s_high :: "'v cell"
  s_low :: "'v cell"
  s_volume :: "'v cell"
  s_amount :: "'v cell"
  s_change_percent :: "'v cell"
  s_change_amount :: "'v cell"
  s_turnover :: "'v cell"

record realtime_collector =
  rc_daily_storage :: daily_storage
  rc_kafka_producer :: kafka_producer

definition scaled :: "('v \<Rightarrow> py_error + int) \<Rightarrow> 'v cell \<Rightarrow> py_error + int" where
  "scaled scale c = (case c of NA \<Rightarrow> Inl ValueError | Val v \<Rightarrow> scale v)"

text \<open>\<open>get_sz_realtime_data\<close> and \<open>get_sh_realtime_data\<close>, on what the upstream call gives.\<close>

definition get_sz_realtime_data :: "py_error + 'r list option \<Rightarrow> 'r list option" where
  "get_sz_realtime_data upstream =
     (case upstream of
        Inl e \<Rightarrow> None
      | Inr None \<Rightarrow> None
      | Inr (Some rows) \<Rightarrow> if rows = [] then None else Some rows)"

definition get_sh_realtime_data :: "py_error + 'r list option \<Rightarrow> 'r list option" where
  "get_sh_realtime_data upstream =
     (case upstream of
        Inl e \<Rightarrow> None
      | Inr None \<Rightarrow> None
      | Inr (Some rows) \<Rightarrow> if rows = [] then None else Some rows)"

text \<open>\<open>_get_previous_close_price(self, stock_code, current_date)\<close>\<close>

definition get_previous_close_price :: "daily_storage \<Rightarrow> string \<Rightarrow> string \<Rightarrow> int" where
  "get_previous_close_price storage code current_date =
     (case call_search_daily_data storage
             [(''stock_code'', PyStr code), (''size'', PyInt 1),
              (''sort_by_date'', PyBool True), (''ascending'', PyBool False)] of
        Inl e \<Rightarrow> 0
      | Inr recent_data \<Rightarrow> (case recent_data of [] \<Rightarrow> 0 | d # ds \<Rightarrow> close_price d))"

definition realtime_item ::
  "('v \<Rightarrow> py_error + int) \<Rightarrow> daily_storage \<Rightarrow> string \<Rightarrow> string \<Rightarrow> 'v spot_row \<Rightarrow>
     py_error + daily_bar" where
  "realtime_item scale storage current_date market row =
     bind_err (scaled scale (s_open row)) (\<lambda>op.
     bind_err (scaled scale (s_latest row)) (\<lambda>cl.
     bind_err (scaled scale (s_high row)) (\<lambda>hi.
     bind_err (scaled scale (s_low row)) (\<lambda>lo.
     bind_err (scaled scale (s_volume row)) (\<lambda>vol.
     bind_err (scaled scale (s_amount row)) (\<lambda>amt.
     bind_err (scaled scale (s_change_percent row)) (\<lambda>cp.
     bind_err (scaled scale (s_change_amount row)) (\<lambda>ca.
     bind_err (scaled scale (s_turnover row)) (\<lambda>tr.
       Inr \<lparr> date = current_date, stock_code = s_code row, market_type = market,
             open_price = op, close_price = cl, high_price = hi, low_price = lo,
             prev_close_price = get_previous_close_price storage (s_code row) current_date,
             volume = vol, amount = amt, change_percent = cp, change_amount = ca,
             turnover_rate = tr \<rparr>)))))))))"

text \<open>
  \<open>process_realtime_data(self, data, market_type)\<close>: the \<open>try\<close> is around the whole loop,
  so the first row that raises ends it, and the rows converted before it are returned.
\<close>

fun process_realtime_data ::
  "('v \<Rightarrow> py_error + int) \<Rightarrow> daily_storage \<Rightarrow> string \<Rightarrow> 'v spot_row list \<Rightarrow> string \<Rightarrow>
     daily_bar list" where
  "process_realtime_data scale storage current_date [] market = []"
| "process_realtime_data scale storage current_date (row # rows) market =
     (case realtime_item scale storage current_date market row of
        Inl e \<Rightarrow> []
      | Inr stock_data \<Rightarrow>
          stock_data # process_realtime_data scale storage current_date rows market)"

text \<open>\<open>_send_to_kafka(self, data)\<close>: one send per record.\<close>

fun send_to_kafka :: "kafka_producer \<Rightarrow> daily_bar list \<Rightarrow> kafka_producer" where
  "send_to_kafka kp [] = kp"
| "send_to_kafka kp (stock_data # rest) = send_to_kafka (snd (send_stock_data kp stock_data)) rest"

text \<open>
  Modelled from the spec: \<open>DailyDataStorage\<close> defines no \<open>save_daily_data_batch\<close>; the spec
  calls it the daily-bar adapter's batch-save operation, which is \<open>save_daily_data\<close> with
  its default sub-batch size.
\<close>

definition save_daily_data_batch :: "daily_storage \<Rightarrow> daily_bar list \<Rightarrow> bool \<times> daily_storage" where
  "save_daily_data_batch self data_list = save_daily_data self data_list 1000"

text \<open>The counters every collection returns; the realtime one adds the two markets.\<close>

record tally =
  total :: nat
  success :: nat
  failed :: nat

record realtime_tally = tally +
  sz_count :: nat
  sh_count :: nat

text \<open>
  \<open>collect_all_realtime_data(self)\<close>, given today's date and what the two upstream calls
  give. The body is one \<open>try\<close>; its handler sets \<open>failed\<close> to \<open>total\<close>.
\<close>

definition collect_all_realtime_data ::
  "('v \<Rightarrow> py_error + int) \<Rightarrow> string \<Rightarrow> py_error + 'v spot_row list option \<Rightarrow>
     py_error + 'v spot_row list option \<Rightarrow> realtime_collector \<Rightarrow>
     realtime_tally \<times> realtime_collector" where
  "collect_all_realtime_data scale current_date sz_upstream sh_upstream self =
     (let sz_processed =
            (case get_sz_realtime_data sz_upstream of
               None \<Rightarrow> []
             | Some sz_data \<Rightarrow>
                 process_realtime_data scale (rc_daily_storage self) current_date sz_data ''SZ'');
          sh_processed =
            (case get_sh_realtime_data sh_upstream of
               None \<Rightarrow> []
             | Some sh_data \<Rightarrow>
                 process_realtime_data scale (rc_daily_storage self) current_date sh_data ''SH'');
          all_data = sz_processed @ sh_processed;
          result = \<lparr> total = length all_data, success = 0, failed = 0,
                     sz_count = length sz_processed, sh_count = length sh_processed \<rparr>
      in if all_data = [] then (result, self)
         else
           (case getattr DailyDataStorage_attrs ''save_daily_data_batch'' of
              Inl e \<Rightarrow> (result\<lparr> failed := total result \<rparr>, self)
            | Inr u \<Rightarrow>
                (case save_daily_data_batch (rc_daily_storage self) all_data of
                   (save_success, storage') \<Rightarrow>
                     if save_success
                     then (result\<lparr> success := length all_data \<rparr>,
                           self\<lparr> rc_daily_storage := storage',
                                 rc_kafka_producer :=
                                   send_to_kafka (rc_kafka_producer self) all_data \<rparr>)
                     else (result\<lparr> failed := length all_data \<rparr>,
                           self\<lparr> rc_daily_storage := storage' \<rparr>))))"

section \<open>History collector: the backfill entry points\<close>

text \<open>
  A data frame as the upstream endpoint gives it: its rows, and whether it has the date
  column with values that can be compared. \<open>process_history_data\<close> sorts the frame by
  that column before the loop over the rows and outside the \<open>try\<close> of the loop body:
  on a frame without the column \<open>df.sort_values\<close> raises \<open>KeyError\<close> (and \<open>TypeError\<close> on
  values that cannot be compared), and the exception leaves \<open>process_history_data\<close>. On
  every other frame the function is \<open>process_history_data\<close> above, on the rows.
\<close>

record 'v frame =
  date_sortable :: bool
  frame_rows :: "'v hist_row list"

definition process_history_frame ::
  "('v \<Rightarrow> py_error + int) \<Rightarrow> 'v frame option \<Rightarrow> string \<Rightarrow> string \<Rightarrow> py_error + daily_bar list" where
  "process_history_frame scale df code market =
     (case df of
        None \<Rightarrow> Inr []
      | Some fr \<Rightarrow>
          if frame_rows fr = [] then Inr []
          else if date_sortable fr
          then Inr (process_history_data scale (Some (frame_rows fr)) code market)
          else Inl KeyError)"

text \<open>
  The upstream day-bar endpoint, called with the symbol, the two dates in compact form,
  the adjustment flag and the number of the attempt: it raises, or gives a frame or
  nothing.
\<close>

type_synonym 'v ak_hist =
  "string \<Rightarrow> string \<Rightarrow> string \<Rightarrow> string \<Rightarrow> nat \<Rightarrow> py_error + 'v frame option"

text \<open>
  The retry loop of \<open>get_stock_history_data\<close>: \<open>left\<close> attempts remain. A frame or an
  empty answer ends the loop; an exception goes on to the next attempt, if there is one.
\<close>

fun history_attempts ::
  "(nat \<Rightarrow> py_error + 'v frame option) \<Rightarrow> nat \<Rightarrow> nat \<Rightarrow> 'v frame option" where
  "history_attempts call 0 attempt = None"
| "history_attempts call (Suc left) attempt =
     (case call attempt of
        Inr df \<Rightarrow>
          (case df of None \<Rightarrow> None | Some fr \<Rightarrow> if frame_rows fr = [] then None else Some fr)
      | Inl e \<Rightarrow> if 0 < left then history_attempts call left (Suc attempt) else None)"

definition compact_date :: "string \<Rightarrow> string" where
  "compact_date d = filter (\<lambda>c. c \<noteq> CHR ''-'') d"

text \<open>\<open>get_stock_history_data\<close> with \<open>period\<close> and \<open>max_retries\<close> at their defaults.\<close>

definition get_stock_history_data ::
  "'v ak_hist \<Rightarrow> string \<Rightarrow> string \<Rightarrow> string \<Rightarrow> string \<Rightarrow> 'v frame option" where
  "get_stock_history_data ak code start_date end_date adjust =
     history_attempts (ak code (compact_date start_date) (compact_date end_date) adjust) 3 0"

text \<open>
  \<open>time.sleep(secs)\<close> raises \<open>ValueError\<close> for a negative length, and \<open>OverflowError\<close> for
  a length whose nanoseconds do not fit the 64 bits of the runtime's time stamp
  (\<open>10 ** 10\<close> seconds, for one).
\<close>

definition py_sleep :: "rat \<Rightarrow> py_error + unit" where
  "py_sleep secs =
     (if secs < 0 then Inl ValueError
      else if 2 ^ 63 \<le> secs * 10 ^ 9 then Inl OverflowError
      else Inr ())"

text \<open>
  \<open>get_stock_codes_from_es(self)\<close>: up to 10000 pairs of symbol code and market type from
  the basic index, the empty string where a document lacks the field; the empty list
  when anything raises.
\<close>

record history_collector =
  hc_es_storage :: basic_storage

definition get_stock_codes_from_es :: "history_collector \<Rightarrow> (string \<times> string) list" where
  "get_stock_codes_from_es self =
     (case basic_client (hc_es_storage self) of
        None \<Rightarrow> []
      | Some es \<Rightarrow>
          if reachable es
          then map (\<lambda>(c, m). (case c of None \<Rightarrow> [] | Some c' \<Rightarrow> c',
                               case m of None \<Rightarrow> [] | Some m' \<Rightarrow> m'))
                 (take 10000 (basic_docs es))
          else [])"

text \<open>
  The pause that ends the \<open>try\<close> block of the inner loop. It comes after a counter has
  been raised: when it raises, the handler of the block raises \<open>failed_count\<close> as well.
\<close>

definition pause_in_try ::
  "rat \<Rightarrow> daily_bar list \<times> nat \<times> nat \<Rightarrow> daily_bar list \<times> nat \<times> nat" where
  "pause_in_try delay_between_requests acc =
     (case acc of
        (batch_data, success_count, failed_count) \<Rightarrow>
          (case py_sleep delay_between_requests of
             Inr u \<Rightarrow> (batch_data, success_count, failed_count)
           | Inl e \<Rightarrow> (batch_data, success_count, failed_count + 1)))"

text \<open>
  The body of the inner loop, for one symbol: the \<open>try\<close> block with its handler. The
  accumulator is \<open>(batch_data, success_count, failed_count)\<close>. When the processing of a
  fetched frame raises, \<open>success_count\<close> has not been raised yet and the pause is skipped:
  the handler counts the symbol as failed.
\<close>

definition collect_symbol ::
  "'v ak_hist \<Rightarrow> ('v \<Rightarrow> py_error + int) \<Rightarrow> string \<Rightarrow> string \<Rightarrow> string \<Rightarrow> rat \<Rightarrow>
     string \<times> string \<Rightarrow> daily_bar list \<times> nat \<times> nat \<Rightarrow> daily_bar list \<times> nat \<times> nat" where
  "collect_symbol ak scale start_date end_date adjust delay_between_requests symbol acc =
     (case (symbol, acc) of
        ((code, market), (batch_data, success_count, failed_count)) \<Rightarrow>
          (case get_stock_history_data ak code start_date end_date adjust of
             None \<Rightarrow>
               pause_in_try delay_between_requests (batch_data, success_count, failed_count + 1)
           | Some df \<Rightarrow>
               if frame_rows df = []
               then pause_in_try delay_between_requests
                      (batch_data, success_count, failed_count + 1)
               else
                 (case process_history_frame scale (Some df) code market of
                    Inl e \<Rightarrow> (batch_data, success_count, failed_count + 1)
                  | Inr processed_data \<Rightarrow>
                      pause_in_try delay_between_requests
                        (batch_data @ processed_data, success_count + 1, failed_count))))"

text \<open>
  The flush of one batch: a new \<open>DailyDataStorage\<close> on the cluster saves the records; the
  outcome is only logged.
\<close>

definition flush_batch :: "es_engine \<Rightarrow> daily_bar list \<Rightarrow> es_engine" where
  "flush_batch es batch_data =
     (if batch_data = [] then es
      else (case es_client (snd (save_daily_data (new_daily_storage es) batch_data 1000)) of
              None \<Rightarrow> es
            | Some es' \<Rightarrow> es'))"

text \<open>The outer loop over the batches, with the counters and the cluster.\<close>

fun collect_batches ::
  "'v ak_hist \<Rightarrow> ('v \<Rightarrow> py_error + int) \<Rightarrow> string \<Rightarrow> string \<Rightarrow> string \<Rightarrow> rat \<Rightarrow>
     (string \<times> string) list list \<Rightarrow> nat \<times> nat \<times> es_engine \<Rightarrow> nat \<times> nat \<times> es_engine" where
  "collect_batches ak scale start_date end_date adjust delay [] acc = acc"
| "collect_batches ak scale start_date end_date adjust delay (batch_stocks # rest)
       (success_count, failed_count, es) =
     (case fold (collect_symbol ak scale start_date end_date adjust delay) batch_stocks
             ([], success_count, failed_count) of
        (batch_data, success_count', failed_count') \<Rightarrow>
          collect_batches ak scale start_date end_date adjust delay rest
            (success_count', failed_count', flush_batch es batch_data))"

definition collect_stocks ::
  "'v ak_hist \<Rightarrow> ('v \<Rightarrow> py_error + int) \<Rightarrow> es_engine \<Rightarrow> string \<Rightarrow> string \<Rightarrow> string \<Rightarrow>
     (string \<times> string) list \<Rightarrow> int \<Rightarrow> rat \<Rightarrow> (py_error + tally) \<times> es_engine" where
  "collect_stocks ak scale es start_date end_date adjust stock_list batch_size delay =
     (if stock_list = [] then (Inr \<lparr> total = 0, success = 0, failed = 0 \<rparr>, es)
      else
        (case py_batches batch_size stock_list of
           Inl e \<Rightarrow> (Inl e, es)
         | Inr batches \<Rightarrow>
             (case collect_batches ak scale start_date end_date adjust delay batches (0, 0, es) of
                (success_count, failed_count, es') \<Rightarrow>
                  (Inr \<lparr> total = length stock_list, success = success_count,
                         failed = failed_count \<rparr>, es'))))"

text \<open>
  \<open>collect_all_history_data(self, start_date, end_date, batch_size=50,
  delay_between_requests=1)\<close>: the symbols and their markets come from the basic index,
  and the upstream call uses the default adjustment \<open>qfq\<close>.
\<close>

definition collect_all_history_data ::
  "'v ak_hist \<Rightarrow> ('v \<Rightarrow> py_error + int) \<Rightarrow> es_engine \<Rightarrow> history_collector \<Rightarrow> string \<Rightarrow> string \<Rightarrow>
     int \<Rightarrow> rat \<Rightarrow> (py_error + tally) \<times> es_engine" where
  "collect_all_history_data ak scale es self start_date end_date batch_size delay =
     collect_stocks ak scale es start_date end_date ''qfq'' (get_stock_codes_from_es self)
       batch_size delay"

text \<open>
  \<open>collect_history_data_by_codes(self, start_date, end_date, stock_codes,
  adjust_flag='qfq', batch_size=50, delay_between_requests=1)\<close>: the market of a symbol
  is \<open>SZ\<close> when its code starts with 000, 002 or 300, and \<open>SH\<close> otherwise.
\<close>

definition infer_market :: "string \<Rightarrow> string" where
  "infer_market code = (if List.member [''000'', ''002'', ''300''] (take 3 code) then ''SZ'' else ''SH'')"

definition collect_history_data_by_codes ::
  "'v ak_hist \<Rightarrow> ('v \<Rightarrow> py_error + int) \<Rightarrow> es_engine \<Rightarrow> string \<Rightarrow> string \<Rightarrow> string list \<Rightarrow>
     string \<Rightarrow> int \<Rightarrow> rat \<Rightarrow> (py_error + tally) \<times> es_engine" where
  "collect_history_data_by_codes ak scale es start_date end_date codes adjust_flag batch_size delay =
     collect_stocks ak scale es start_date end_date adjust_flag
       (map (\<lambda>code. (code, infer_market code)) codes) batch_size delay"

text \<open>
  A symbol is fetched when \<open>get_stock_history_data\<close> returns a frame: some attempt gave a
  frame with rows, and every attempt before it raised.
\<close>

definition fetched :: "'v ak_hist \<Rightarrow> string \<Rightarrow> string \<Rightarrow> string \<Rightarrow> string \<Rightarrow> bool" where
  "fetched ak start_date end_date adjust code =
     (get_stock_history_data ak code start_date end_date adjust \<noteq> None)"

text \<open>
  A symbol is collected when it is fetched and the processing of its frame does not
  raise, which is when the frame can be sorted by date.
\<close>

definition collected :: "'v ak_hist \<Rightarrow> string \<Rightarrow> string \<Rightarrow> string \<Rightarrow> string \<Rightarrow> bool" where
  "collected ak start_date end_date adjust code =
     (case get_stock_history_data ak code start_date end_date adjust of
        None \<Rightarrow> False
      | Some df \<Rightarrow> date_sortable df)"

text \<open>
  An upstream for the worked examples: a one-row frame for the symbols 000001 and 600000,
  a one-row frame without a date column for the symbol 300750, nothing for every other
  symbol. And a cluster that does not answer, where every save fails.
\<close>

definition example_ak :: "rat ak_hist" where
  "example_ak code start_date end_date adjust attempt =
     (if List.member [''000001'', ''600000''] code
      then Inr (Some \<lparr> date_sortable = True, frame_rows = [example_row ''2025-08-18'' 10] \<rparr>)
      else if code = ''300750''
      then Inr (Some \<lparr> date_sortable = False, frame_rows = [example_row [] 10] \<rparr>)
      else Inr None)"

definition unreachable_engine :: es_engine where
  "unreachable_engine = \<lparr> reachable = False, daily_docs = [], basic_docs = [], writes = [] \<rparr>"

text \<open>A small index for the worked examples: one bar of one symbol on a cluster that answers.\<close>

definition example_bar :: daily_bar where
  "example_bar =
     \<lparr> date = ''2025-08-18'', stock_code = ''000001'', market_type = ''SZ'',
       open_price = 990, close_price = 1000, high_price = 1010, low_price = 980,
       prev_close_price = 0, volume = 100, amount = 100, change_percent = 0,
       change_amount = 0, turnover_rate = 0 \<rparr>"

definition example_engine :: es_engine where
  "example_engine =
     \<lparr> reachable = True, daily_docs = [(''000001_2025-08-18'', example_bar)],
       basic_docs = [(Some ''000001'', Some ''SZ'')], writes = [] \<rparr>"

section \<open>Properties of \<open>process_history_data\<close>\<close>

lemma map_insort_key: "map f (insort_key f x xs) = insort (f x) (map f xs)"
  by (induction xs) simp_all

lemma map_sort_key: "map f (sort_key f xs) = sort (map f xs)"
  by (induction xs) (simp_all add: map_insort_key)

lemma history_item_fields:
  assumes "history_item scale code market prev row = Inr item"
  shows "date item = r_date row" and "prev_close_price item = prev"
    and "close_price item = scaled_close scale row"
  using assms
  by (auto simp: history_item_def bind_err_def scaled_close_def split: sum.splits)

lemma history_item_converts:
  "(\<not> isl (history_item scale code market prev row)) = row_converts scale row"
  by (auto simp: history_item_def row_converts_def bind_err_def split: sum.splits)

lemma process_rows_chain:
  "map prev_close_price (process_rows scale code market prev rows) =
     take (length (process_rows scale code market prev rows))
       (prev # map close_price (process_rows scale code market prev rows))"
proof (induction rows arbitrary: prev)
  case Nil
  show ?case by simp
next
  case (Cons row rows)
  show ?case
  proof (cases "history_item scale code market prev row")
    case (Inl e)
    then show ?thesis using Cons.IH [of prev] by simp
  next
    case (Inr item)
    then show ?thesis
      using Cons.IH [of "close_price item"] history_item_fields(2) [OF Inr] by simp
  qed
qed

lemma process_rows_all_convert:
  assumes "\<forall>row \<in> set rows. row_converts scale row"
  shows "map date (process_rows scale code market prev rows) = map r_date rows
       \<and> map close_price (process_rows scale code market prev rows) = map (scaled_close scale) rows"
  using assms
proof (induction rows arbitrary: prev)
  case Nil
  show ?case by simp
next
  case (Cons row rows)
  from Cons.prems have "row_converts scale row" by simp
  then obtain item where item: "history_item scale code market prev row = Inr item"
    using history_item_converts [of scale code market prev row]
    by (cases "history_item scale code market prev row") auto
  from Cons.prems have rest: "\<forall>row \<in> set rows. row_converts scale row" by simp
  show ?case
    using item history_item_fields(1,3) [OF item] Cons.IH [OF rest, of "close_price item"]
    by simp
qed

text \<open>
  C4. When every raw row of one symbol converts, \<open>process_history_data\<close> yields one record
  per row, in ascending date order; the close of each record is the scaled close of its
  row; the first record's \<open>prev_close_price\<close> is 0 and every later record's
  \<open>prev_close_price\<close> is the \<open>close_price\<close> of the record just before it (the list of
  previous closes is 0 followed by the closes, cut to the length of the output).
\<close>

theorem process_history_data_prev_close_chain:
  assumes "\<forall>row \<in> set rows. row_converts scale row"
  shows "length (process_history_data scale (Some rows) code market) = length rows
       \<and> map date (process_history_data scale (Some rows) code market) = sort (map r_date rows)
       \<and> sorted (map date (process_history_data scale (Some rows) code market))
       \<and> map close_price (process_history_data scale (Some rows) code market)
           = map (scaled_close scale) (sort_key r_date rows)
       \<and> map prev_close_price (process_history_data scale (Some rows) code market)
           = take (length rows)
               (0 # map close_price (process_history_data scale (Some rows) code market))"
proof (cases "rows = []")
  case True
  then show ?thesis by (simp add: process_history_data_def)
next
  case False
  let ?sorted = "sort_key r_date rows"
  let ?out = "process_rows scale code market 0 ?sorted"
  have out: "process_history_data scale (Some rows) code market = ?out"
    using False by (simp add: process_history_data_def)
  have conv: "\<forall>row \<in> set ?sorted. row_converts scale row"
    using assms by simp
  have dates: "map date ?out = map r_date ?sorted"
    and closes: "map close_price ?out = map (scaled_close scale) ?sorted"
    using process_rows_all_convert [OF conv, of code market 0] by simp_all
  have len: "length ?out = length rows"
    using arg_cong [OF dates, of length] by simp
  have srt: "map r_date ?sorted = sort (map r_date rows)"
    by (rule map_sort_key)
  show ?thesis
    unfolding out
    using len dates closes srt process_rows_chain [of scale code market 0 ?sorted]
    by simp
qed

theorem process_history_data_prev_close_chain_witness:
  "map prev_close_price
     (process_history_data exact_scale
        (Some [example_row ''2025-08-18'' 10, example_row ''2025-08-19'' (21 / 2),
               example_row ''2025-08-20'' (49 / 5)]) ''000001'' ''SZ'')
   = [0, 1000, 1050]"
proof -
  let ?rows = "[example_row ''2025-08-18'' 10, example_row ''2025-08-19'' (21 / 2),
                example_row ''2025-08-20'' (49 / 5)]"
  have conv: "\<forall>row \<in> set ?rows. row_converts exact_scale row"
    by (simp add: row_converts_def history_item_def bind_err_def scaled_or_zero_def
        exact_scale_def example_row_def)
  have closes: "map (scaled_close exact_scale) (sort_key r_date ?rows) = [1000, 1050, 980]"
    by (simp add: scaled_close_def scaled_or_zero_def exact_scale_def example_row_def)
  show ?thesis
    using process_history_data_prev_close_chain [OF conv, of "''000001''" "''SZ''"] closes
    by simp
qed

section \<open>Properties of the daily-bar storage adapter\<close>

lemma call_search_ascending:
  "call_search_daily_data self (kw1 @ (''ascending'', v) # kw2) = Inl TypeError"
  by (simp add: call_search_daily_data_def check_keywords_def unexpected_keywords_def
      search_daily_data_params_def bind_err_def)

text \<open>
  C2. The claim is that \<open>search_daily_data\<close> accepts an \<open>ascending\<close> flag and sorts in the
  direction it gives. The method has no such parameter: every call that passes the keyword
  \<open>ascending\<close>, whatever the other keywords are, raises \<open>TypeError\<close> before the body
  runs.
\<close>

theorem search_daily_data_rejects_ascending:
  "call_search_daily_data self (kw1 @ (''ascending'', v) # kw2) = Inl TypeError"
  by (rule call_search_ascending)

lemma conditions_empty_iff:
  "(term_condition Term_stock_code code @ range_condition start_date end_date = [])
     = (\<not> truthy code \<and> \<not> truthy start_date \<and> \<not> truthy end_date)"
  by (auto simp: term_condition_def range_condition_def truthy_def split: option.splits)

text \<open>
  C9. \<open>delete_daily_data\<close> with no symbol code and no date bound answers \<open>False\<close> and
  leaves the adapter, and with it the index and the list of write requests sent, as it
  was. With at least one condition and a client, it sends one delete-by-query with the
  conditions, and answers \<open>True\<close> exactly when that request does not raise: the number of
  documents the request deleted plays no part.
\<close>

theorem delete_daily_data_needs_condition:
  "(\<not> truthy code \<and> \<not> truthy start_date \<and> \<not> truthy end_date \<longrightarrow>
      delete_daily_data self code start_date end_date = (False, self))
   \<and> ((truthy code \<or> truthy start_date \<or> truthy end_date) \<and> es_client self = Some es \<longrightarrow>
      delete_daily_data self code start_date end_date =
        (\<not> isl (fst (es_delete_by_query es
            (Bool_must (term_condition Term_stock_code code @ range_condition start_date end_date)))),
         self\<lparr> es_client := Some (snd (es_delete_by_query es
            (Bool_must (term_condition Term_stock_code code @ range_condition start_date end_date)))) \<rparr>)
      \<and> writes (snd (es_delete_by_query es
            (Bool_must (term_condition Term_stock_code code @ range_condition start_date end_date))))
          = writes es @ [Delete_by_query
              (Bool_must (term_condition Term_stock_code code @ range_condition start_date end_date))])"
proof (intro conjI impI)
  assume "\<not> truthy code \<and> \<not> truthy start_date \<and> \<not> truthy end_date"
  then have "term_condition Term_stock_code code @ range_condition start_date end_date = []"
    using conditions_empty_iff [of code start_date end_date] by blast
  then show "delete_daily_data self code start_date end_date = (False, self)"
    by (simp add: delete_daily_data_def split: option.splits)
next
  let ?q = "Bool_must (term_condition Term_stock_code code @ range_condition start_date end_date)"
  assume a: "(truthy code \<or> truthy start_date \<or> truthy end_date) \<and> es_client self = Some es"
  then have ne: "term_condition Term_stock_code code @ range_condition start_date end_date \<noteq> []"
    using conditions_empty_iff [of code start_date end_date] by blast
  show "delete_daily_data self code start_date end_date =
          (\<not> isl (fst (es_delete_by_query es ?q)),
           self\<lparr> es_client := Some (snd (es_delete_by_query es ?q)) \<rparr>)"
    using a ne
    by (cases "es_delete_by_query es ?q")
       (auto simp: delete_daily_data_def Let_def split: sum.splits)
  show "writes (snd (es_delete_by_query es ?q)) = writes es @ [Delete_by_query ?q]"
    by (simp add: es_delete_by_query_def)
qed

theorem delete_daily_data_needs_condition_witness:
  "delete_daily_data (new_daily_storage example_engine) None None None
     = (False, new_daily_storage example_engine)
   \<and> truthy (Some ''999999'')
   \<and> es_client (new_daily_storage example_engine) = Some example_engine
   \<and> delete_daily_data (new_daily_storage example_engine) (Some ''999999'') None None
     = (True, \<lparr> es_client = Some (example_engine
          \<lparr> writes := [Delete_by_query (Bool_must [Term_stock_code ''999999''])] \<rparr>) \<rparr>)"
proof -
  have t: "truthy (Some ''999999'')" and n: "\<not> truthy None"
    by (simp_all add: truthy_def)
  have r: "reachable example_engine"
    by (simp add: example_engine_def)
  have c: "es_client (new_daily_storage example_engine) = Some example_engine"
    by (simp add: new_daily_storage_def r)
  have q: "term_condition Term_stock_code (Some ''999999'') @ range_condition None None
             = [Term_stock_code ''999999'']"
    by (simp add: term_condition_def range_condition_def truthy_def)
  have d: "es_delete_by_query example_engine (Bool_must [Term_stock_code ''999999''])
             = (Inr 0, example_engine
                 \<lparr> writes := [Delete_by_query (Bool_must [Term_stock_code ''999999''])] \<rparr>)"
    by (simp add: es_delete_by_query_def example_engine_def example_bar_def)
  show ?thesis
    using delete_daily_data_needs_condition
            [of None None None "new_daily_storage example_engine" example_engine]
          delete_daily_data_needs_condition
            [of "Some ''999999''" None None "new_daily_storage example_engine" example_engine]
          t n c
    by (simp add: q d r new_daily_storage_def)
qed

section \<open>Properties of the streaming strategy job\<close>

lemma get_historical_data_empty: "get_historical_data storage code current_date days = []"
proof -
  have "call_search_daily_data storage
          ([(''stock_code'', PyStr code), (''size'', PyInt days), (''sort_by_date'', PyBool True)]
           @ (''ascending'', PyBool True) # [(''end_date'', PyStr e)]) = Inl TypeError" for e
    by (rule call_search_ascending)
  then show ?thesis
    by (simp add: get_historical_data_def split: sum.splits)
qed

text \<open>
  C1. The claim is that a quote above the earliest close of the lookback emits a signal.
  The lookback calls \<open>search_daily_data\<close> with the keyword \<open>ascending\<close>, which the method
  does not take; the \<open>TypeError\<close> is caught and the lookback is empty. So, for every
  processor state and every message, the strategy returns nothing, saves nothing, and
  \<open>process_element\<close> collects nothing.
\<close>

theorem nine_turn_strategy_never_fires:
  "execute_nine_turn_strategy pct self current_data = (None, self)
   \<and> process_element pct self v = ([], self)"
proof -
  have e: "execute_nine_turn_strategy pct self cd = (None, self)" for cd
    by (simp add: execute_nine_turn_strategy_def get_historical_data_empty Let_def
        split: option.splits prod.splits)
  show ?thesis
    by (simp add: e process_element_def split: option.splits)
qed

section \<open>Properties of the realtime collector\<close>

lemma getattr_save_daily_data_batch:
  "getattr DailyDataStorage_attrs ''save_daily_data_batch'' = Inl AttributeError"
  by (simp add: getattr_def DailyDataStorage_attrs_def)

text \<open>
  C3. The claim is that the combined batch is saved and, when the save succeeds, every
  record is published and \<open>success\<close> is \<open>total\<close>. The collector calls
  \<open>save_daily_data_batch\<close>, which \<open>DailyDataStorage\<close> does not define; the
  \<open>AttributeError\<close> is caught by the handler of the body. So, for every cluster, producer
  and upstream data, the collector is left as it was (nothing is written to the index and
  nothing is sent to the bus), \<open>success\<close> is 0 and \<open>failed\<close> is \<open>total\<close>.
\<close>

theorem collect_all_realtime_data_never_saves:
  "snd (collect_all_realtime_data scale current_date sz_upstream sh_upstream self) = self
   \<and> success (fst (collect_all_realtime_data scale current_date sz_upstream sh_upstream self)) = 0
   \<and> failed (fst (collect_all_realtime_data scale current_date sz_upstream sh_upstream self))
       = total (fst (collect_all_realtime_data scale current_date sz_upstream sh_upstream self))"
  by (simp add: collect_all_realtime_data_def getattr_save_daily_data_batch Let_def)

section \<open>Properties of the application service\<close>

text \<open>
  C5. The claim is that \<open>get_stock_codes\<close> returns the code list of the storage adapter.
  The service calls \<open>get_all_stock_codes(limit=...)\<close>, and the method has the one
  parameter \<open>market_type\<close>: the call raises \<open>TypeError\<close>, which the service raises again as
  its own exception, for every limit and every state of the cluster.
\<close>

theorem get_stock_codes_always_raises:
  "fst (get_stock_codes env self limit) = Inl ServiceException"
  by (simp add: get_stock_codes_def call_get_all_stock_codes_def check_keywords_def
      unexpected_keywords_def get_all_stock_codes_params_def bind_err_def split: prod.splits)

text \<open>
  C6. The claim is that \<open>health_check\<close> answers \<open>healthy\<close> when the ping and the scheduler
  probe succeed, and labels the failing component otherwise. The service calls
  \<open>check_connection\<close>, which \<open>ElasticsearchStorage\<close> does not define; the
  \<open>AttributeError\<close> reaches the outer handler. So the answer is always \<open>unhealthy\<close> with
  an error and without component labels. (It never raises: the result is a report.)
\<close>

theorem health_check_never_healthy:
  "fst (health_check env self) = Health_error ''unhealthy'' AttributeError"
  by (simp add: health_check_def getattr_def ElasticsearchStorage_attrs_def split: prod.splits)

section \<open>Properties of the request model\<close>

text \<open>
  C7. The claim is that construction raises exactly when a date does not parse, the
  dates are out of order, the flag is unknown, or a code is not exactly six digits.
  The pattern of \<open>_is_valid_stock_code\<close> ends in \<open>$\<close>, which also matches before a final
  newline: a request whose code is six digits followed by a newline (seven characters)
  is constructed.
\<close>

theorem history_collect_request_accepts_trailing_newline:
  "HistoryCollectRequest ''2024-01-01'' ''2024-01-31'' (Some [''000001'' @ [CHR 0x0A]]) ''qfq''
     = Inr \<lparr> rq_start_date = ''2024-01-01'', rq_end_date = ''2024-01-31'',
             rq_stock_codes = Some [''000001'' @ [CHR 0x0A]], rq_adjust_flag = ''qfq'' \<rparr>"
  by code_simp

section \<open>Properties of the history backfill\<close>

lemma py_sleep_returns:
  "(py_sleep secs = Inr ()) = (0 \<le> secs \<and> secs * 10 ^ 9 < 2 ^ 63)"
  by (auto simp: py_sleep_def)

lemma history_attempts_rows:
  "history_attempts call left attempt = Some df \<Longrightarrow> frame_rows df \<noteq> []"
  by (induction left arbitrary: attempt) (auto split: sum.splits option.splits if_splits)

lemma collect_symbol_counters:
  assumes "py_sleep delay = Inr ()"
  shows "fst (snd (collect_symbol ak scale sd ed adj delay stock acc))
           = fst (snd acc) + (if collected ak sd ed adj (fst stock) then 1 else 0)"
    and "snd (snd (collect_symbol ak scale sd ed adj delay stock acc))
           = snd (snd acc) + (if collected ak sd ed adj (fst stock) then 0 else 1)"
  using assms history_attempts_rows
  by (auto simp: collect_symbol_def collected_def pause_in_try_def process_history_frame_def
      get_stock_history_data_def split: prod.splits option.splits)

lemma fold_collect_symbol_counters:
  assumes "py_sleep delay = Inr ()"
  shows "fst (snd (fold (collect_symbol ak scale sd ed adj delay) stocks acc))
           = fst (snd acc) + length (filter (\<lambda>stock. collected ak sd ed adj (fst stock)) stocks)
       \<and> snd (snd (fold (collect_symbol ak scale sd ed adj delay) stocks acc))
           = snd (snd acc) + length (filter (\<lambda>stock. \<not> collected ak sd ed adj (fst stock)) stocks)"
proof (induction stocks arbitrary: acc)
  case Nil
  show ?case by simp
next
  case (Cons stock stocks)
  show ?case
    using Cons.IH [of "collect_symbol ak scale sd ed adj delay stock acc"]
      collect_symbol_counters [OF assms, of ak scale sd ed adj stock acc]
    by simp
qed

lemma collect_batches_counters:
  assumes "py_sleep delay = Inr ()"
  shows "fst (collect_batches ak scale sd ed adj delay batches (s, f, es))
           = s + length (filter (\<lambda>stock. collected ak sd ed adj (fst stock)) (concat batches))
       \<and> fst (snd (collect_batches ak scale sd ed adj delay batches (s, f, es)))
           = f + length (filter (\<lambda>stock. \<not> collected ak sd ed adj (fst stock)) (concat batches))"
proof (induction batches arbitrary: s f es)
  case Nil
  show ?case by simp
next
  case (Cons batch batches)
  obtain b s' f' where st: "fold (collect_symbol ak scale sd ed adj delay) batch ([], s, f) = (b, s', f')"
    by (cases "fold (collect_symbol ak scale sd ed adj delay) batch ([], s, f)") auto
  from fold_collect_symbol_counters [OF assms, of ak scale sd ed adj batch "([], s, f)"] st
  have s': "s' = s + length (filter (\<lambda>stock. collected ak sd ed adj (fst stock)) batch)"
    and f': "f' = f + length (filter (\<lambda>stock. \<not> collected ak sd ed adj (fst stock)) batch)"
    by simp_all
  show ?case
    using Cons.IH [of s' f' "flush_batch es b"] st s' f'
    by simp
qed

lemma concat_chunks: "0 < n \<Longrightarrow> concat (chunks n xs) = xs"
proof (induction n xs rule: chunks.induct)
  case (1 n xs)
  show ?case
  proof (cases "xs = []")
    case True
    then show ?thesis by (simp add: chunks.simps)
  next
    case False
    with "1.prems" have "concat (chunks n (drop n xs)) = drop n xs"
      using "1.IH" by simp
    with False "1.prems" show ?thesis
      by (subst chunks.simps) simp
  qed
qed

lemma collect_stocks_tally:
  assumes "0 < batch_size" and "py_sleep delay = Inr ()"
  shows "fst (collect_stocks ak scale es sd ed adj stock_list batch_size delay)
           = Inr \<lparr> total = length stock_list,
                   success = length (filter (\<lambda>stock. collected ak sd ed adj (fst stock)) stock_list),
                   failed = length (filter (\<lambda>stock. \<not> collected ak sd ed adj (fst stock)) stock_list) \<rparr>"
proof (cases "stock_list = []")
  case True
  then show ?thesis by (simp add: collect_stocks_def)
next
  case False
  have b: "py_batches batch_size stock_list = Inr (chunks (nat batch_size) stock_list)"
    using assms(1) by (simp add: py_batches_def)
  have c: "concat (chunks (nat batch_size) stock_list) = stock_list"
    using assms(1) by (simp add: concat_chunks)
  show ?thesis
    using False collect_batches_counters [OF assms(2), of ak scale sd ed adj
        "chunks (nat batch_size) stock_list" 0 0 es]
    by (auto simp: collect_stocks_def b c split: prod.splits)
qed

lemma collected_fetched:
  "collected ak sd ed adj code \<Longrightarrow> fetched ak sd ed adj code"
  by (auto simp: collected_def fetched_def split: option.splits)


text \<open>
  C8. The claim is that a symbol counts as success exactly when its fetch returned a
  non-empty result, with the tally \<open>{total 3, success 2, failed 1}\<close> for three codes of
  which two are fetched. It fails in the four ways of the counterexample below. A symbol
  whose fetch returned a frame without a date column is fetched and yet counted as
  failed, by the handler of the loop body. With a pause that \<open>time.sleep\<close> rejects
  (negative, or \<open>10 ** 10\<close> seconds) the three codes give \<open>failed = 4\<close>, and with a negative
  batch size no symbol is counted at all.

  What holds: for a non-empty list of codes, a positive batch size and a pause that
  \<open>time.sleep\<close> accepts, \<open>collect_history_data_by_codes\<close> returns the number of codes as
  \<open>total\<close>, the number of collected symbols (fetched, and processed without an exception)
  as \<open>success\<close>, and the number of the others as \<open>failed\<close>. The cluster plays no part: the
  tally is the same on any two clusters, whether the saves succeed or fail.
\<close>

theorem collect_history_data_by_codes_tally:
  assumes "0 < batch_size" and "py_sleep delay = Inr ()" and "codes \<noteq> []"
  shows "fst (collect_history_data_by_codes ak scale es start_date end_date codes adjust_flag
                batch_size delay)
           = Inr \<lparr> total = length codes,
                   success = length (filter (collected ak start_date end_date adjust_flag) codes),
                   failed = length (filter (\<lambda>code. \<not> collected ak start_date end_date adjust_flag code)
                                     codes) \<rparr>
       \<and> fst (collect_history_data_by_codes ak scale es start_date end_date codes adjust_flag
                batch_size delay)
           = fst (collect_history_data_by_codes ak scale es' start_date end_date codes adjust_flag
                batch_size delay)"
  using collect_stocks_tally [OF assms(1,2), of ak scale es start_date end_date adjust_flag
      "map (\<lambda>code. (code, infer_market code)) codes"]
    collect_stocks_tally [OF assms(1,2), of ak scale es' start_date end_date adjust_flag
      "map (\<lambda>code. (code, infer_market code)) codes"]
  by (simp add: collect_history_data_by_codes_def filter_map comp_def)

theorem collect_history_data_by_codes_tally_witness:
  "(0::int) < 50 \<and> py_sleep 1 = Inr () \<and> [''000001'', ''600000'', ''999999''] \<noteq> []
   \<and> fst (collect_history_data_by_codes example_ak exact_scale unreachable_engine
            ''2025-08-17'' ''2025-09-17'' [''000001'', ''600000'', ''999999''] ''qfq'' 50 1)
       = Inr \<lparr> total = 3, success = 2, failed = 1 \<rparr>"
proof -
  have p: "py_sleep 1 = Inr ()"
    by (simp add: py_sleep_def)
  have f: "collected example_ak ''2025-08-17'' ''2025-09-17'' ''qfq'' ''000001''"
          "collected example_ak ''2025-08-17'' ''2025-09-17'' ''qfq'' ''600000''"
          "\<not> collected example_ak ''2025-08-17'' ''2025-09-17'' ''qfq'' ''999999''"
    by (simp_all add: collected_def get_stock_history_data_def example_ak_def numeral_3_eq_3)
  show ?thesis
    using collect_history_data_by_codes_tally [OF _ p, of 50 "[''000001'', ''600000'', ''999999'']"
        example_ak exact_scale unreachable_engine "''2025-08-17''" "''2025-09-17''" "''qfq''"
        unreachable_engine]
    by (simp add: f p)
qed

theorem collect_history_data_by_codes_tally_counterexample:
  "fetched example_ak ''2025-08-17'' ''2025-09-17'' ''qfq'' ''300750''
   \<and> fst (collect_history_data_by_codes example_ak exact_scale example_engine
            ''2025-08-17'' ''2025-09-17'' [''000001'', ''300750'', ''999999''] ''qfq'' 50 1)
       = Inr \<lparr> total = 3, success = 1, failed = 2 \<rparr>
   \<and> fst (collect_history_data_by_codes example_ak exact_scale example_engine
            ''2025-08-17'' ''2025-09-17'' [''000001'', ''600000'', ''999999''] ''qfq'' 50 (- 1))
       = Inr \<lparr> total = 3, success = 2, failed = 4 \<rparr>
   \<and> fst (collect_history_data_by_codes example_ak exact_scale example_engine
            ''2025-08-17'' ''2025-09-17'' [''000001'', ''600000'', ''999999''] ''qfq'' 50 (10 ^ 10))
       = Inr \<lparr> total = 3, success = 2, failed = 4 \<rparr>
   \<and> fst (collect_history_data_by_codes example_ak exact_scale example_engine
            ''2025-08-17'' ''2025-09-17'' [''000001'', ''600000'', ''999999''] ''qfq'' (- 1) 1)
       = Inr \<lparr> total = 3, success = 0, failed = 0 \<rparr>"
  by code_simp


text \<open>
  C10. The claim is that \<open>success + failed = total\<close> for every input. With a negative
  batch size the loop over the batches is empty and no symbol is counted, and with a
  pause that \<open>time.sleep\<close> rejects a symbol is counted as failed by the handler after it
  was counted already: the three tallies of the counterexample below do not add up.
  For a positive batch size and a pause that \<open>time.sleep\<close> accepts, both entry points
  return a tally whose \<open>total\<close> is the number of symbols and in which
  \<open>success + failed = total\<close>, whatever the upstream, the processing and the saves do.
\<close>

theorem history_tally_sum:
  assumes "0 < batch_size" and "py_sleep delay = Inr ()"
  shows "(\<exists>t. fst (collect_all_history_data ak scale es self start_date end_date batch_size delay)
               = Inr t
             \<and> total t = length (get_stock_codes_from_es self)
             \<and> success t + failed t = total t)
       \<and> (\<exists>t. fst (collect_history_data_by_codes ak scale es start_date end_date codes adjust_flag
                      batch_size delay) = Inr t
             \<and> total t = length codes
             \<and> success t + failed t = total t)"
  using collect_stocks_tally [OF assms, of ak scale es start_date end_date "''qfq''"
      "get_stock_codes_from_es self"]
    collect_stocks_tally [OF assms, of ak scale es start_date end_date adjust_flag
      "map (\<lambda>code. (code, infer_market code)) codes"]
  by (simp add: collect_all_history_data_def collect_history_data_by_codes_def
      sum_length_filter_compl comp_def)

theorem history_tally_sum_witness:
  "(0::int) < 50 \<and> py_sleep 1 = Inr ()
   \<and> (\<exists>t. fst (collect_all_history_data example_ak exact_scale example_engine
                  \<lparr> hc_es_storage = \<lparr> basic_client = Some example_engine \<rparr> \<rparr>
                  ''2025-08-17'' ''2025-09-17'' 50 1) = Inr t
           \<and> total t = 1
           \<and> success t + failed t = total t)
   \<and> (\<exists>t. fst (collect_history_data_by_codes example_ak exact_scale unreachable_engine
                  ''2025-08-17'' ''2025-09-17'' [''000001'', ''300750''] ''qfq'' 50 1) = Inr t
           \<and> total t = 2
           \<and> success t + failed t = total t)"
proof -
  have p: "py_sleep 1 = Inr ()"
    by (simp add: py_sleep_def)
  have u: "length (get_stock_codes_from_es
             \<lparr> hc_es_storage = \<lparr> basic_client = Some example_engine \<rparr> \<rparr>) = 1"
    by (simp add: get_stock_codes_from_es_def example_engine_def)
  have a: "\<exists>t. fst (collect_all_history_data example_ak exact_scale example_engine
                  \<lparr> hc_es_storage = \<lparr> basic_client = Some example_engine \<rparr> \<rparr>
                  ''2025-08-17'' ''2025-09-17'' 50 1) = Inr t
           \<and> total t = 1
           \<and> success t + failed t = total t"
    using history_tally_sum [OF _ p, of 50 example_ak exact_scale example_engine
        "\<lparr> hc_es_storage = \<lparr> basic_client = Some example_engine \<rparr> \<rparr>"
        "''2025-08-17''" "''2025-09-17''"]
    by (simp add: u)
  have b: "\<exists>t. fst (collect_history_data_by_codes example_ak exact_scale unreachable_engine
                  ''2025-08-17'' ''2025-09-17'' [''000001'', ''300750''] ''qfq'' 50 1) = Inr t
           \<and> total t = 2
           \<and> success t + failed t = total t"
    using history_tally_sum [OF _ p, of 50 example_ak exact_scale unreachable_engine
        "\<lparr> hc_es_storage = \<lparr> basic_client = Some example_engine \<rparr> \<rparr>"
        "''2025-08-17''" "''2025-09-17''" "[''000001'', ''300750'']" "''qfq''"]
    by (simp add: numeral_2_eq_2)
  show ?thesis
    using a b p by simp
qed

theorem history_tally_sum_counterexample:
  "fst (collect_all_history_data example_ak exact_scale example_engine
          \<lparr> hc_es_storage = \<lparr> basic_client = Some example_engine \<rparr> \<rparr>
          ''2025-08-17'' ''2025-09-17'' (- 1) 1)
     = Inr \<lparr> total = 1, success = 0, failed = 0 \<rparr>
   \<and> fst (collect_all_history_data example_ak exact_scale example_engine
          \<lparr> hc_es_storage = \<lparr> basic_client = Some example_engine \<rparr> \<rparr>
          ''2025-08-17'' ''2025-09-17'' 50 (- 1))
     = Inr \<lparr> total = 1, success = 1, failed = 1 \<rparr>
   \<and> fst (collect_history_data_by_codes example_ak exact_scale example_engine
          ''2025-08-17'' ''2025-09-17'' [''000001'', ''300750'', ''999999''] ''qfq'' 50 (10 ^ 10))
     = Inr \<lparr> total = 3, success = 1, failed = 4 \<rparr>"
  by code_simp

end
